theory Spec2Isabelle
  imports Complex_Main "HOL-Library.Word" "HOL-Library.Sublist"
begin

section \<open>JavaScript values used by the components\<close>

subsection \<open>Strings\<close>

text \<open>
  A JavaScript string is a sequence of UTF-16 code units; \<open>length\<close>, \<open>substring\<close> and
  \<open>trim\<close> all count and inspect code units. A literal of the source that is plain ASCII is
  written \<open>js ''...''\<close>; the Chinese literals are given by their code units.
\<close>

type_synonym jsstring = "16 word list"

definition js :: "string \<Rightarrow> jsstring" where
  "js s = map (\<lambda>c. of_char c) s"

text \<open>
  \<open>String.prototype.trim\<close> strips the code units of the ECMAScript productions
  WhiteSpace (TAB, VT, FF, SP, NBSP, ZWNBSP and the other space separators) and
  LineTerminator (LF, CR, LS, PS) from both ends.
\<close>

definition WhiteSpace :: "16 word \<Rightarrow> bool" where
  "WhiteSpace c =
     (c \<in> set [0x9, 0xB, 0xC, 0x20, 0xA0, 0xFEFF, 0x1680, 0x202F, 0x205F, 0x3000]
      \<or> (0x2000 \<le> c \<and> c \<le> 0x200A))"

definition LineTerminator :: "16 word \<Rightarrow> bool" where
  "LineTerminator c = (c \<in> set [0xA, 0xD, 0x2028, 0x2029])"

definition trimmable :: "16 word \<Rightarrow> bool" where
  "trimmable c = (WhiteSpace c \<or> LineTerminator c)"

definition trim :: "jsstring \<Rightarrow> jsstring" where
  "trim s = rev (dropWhile trimmable (rev (dropWhile trimmable s)))"

text \<open>\<open>a || b\<close> on an optional string: an absent and an empty string are falsy.\<close>

definition or_else :: "jsstring option \<Rightarrow> jsstring \<Rightarrow> jsstring" where
  "or_else a b = (case a of None \<Rightarrow> b | Some s \<Rightarrow> if s = [] then b else s)"

text \<open>
  \<open>s.substring(start, end)\<close> on integer arguments: both are clamped to \<open>[0, length]\<close>
  and swapped when out of order.
\<close>

definition substring :: "jsstring \<Rightarrow> int \<Rightarrow> int \<Rightarrow> jsstring" where
  "substring s start end' =
     (let len = int (length s);
          a = min (max start 0) len;
          b = min (max end' 0) len;
          from = min a b;
          to = max a b
      in take (nat (to - from)) (drop (nat from) s))"

text \<open>
  \<open>xs.slice(start)\<close> with the one argument: a negative start counts from the end, and
  the start is clamped to \<open>[0, length]\<close>.
\<close>

definition slice_list :: "int \<Rightarrow> 'a list \<Rightarrow> 'a list" where
  "slice_list start xs =
     (let len = int (length xs);
          k = (if start < 0 then max (len + start) 0 else min start len)
      in drop (nat k) xs)"

subsection \<open>Numbers\<close>

text \<open>
  A JavaScript number is a double: a finite value, an infinity or NaN. The components only
  compare numbers with constants, and every comparison with NaN is false.
\<close>

datatype jsnumber = NaN | NegInf | Finite real | PosInf

fun js_less :: "jsnumber \<Rightarrow> jsnumber \<Rightarrow> bool" where
  "js_less NaN _ = False"
| "js_less _ NaN = False"
| "js_less (Finite a) (Finite b) = (a < b)"
| "js_less NegInf NegInf = False"
| "js_less NegInf _ = True"
| "js_less _ NegInf = False"
| "js_less PosInf _ = False"
| "js_less (Finite a) PosInf = True"

definition js_greater :: "jsnumber \<Rightarrow> jsnumber \<Rightarrow> bool" where
  "js_greater a b = js_less b a"

subsection \<open>Thrown values\<close>

text \<open>
  What a \<open>catch\<close> clause of the components can tell apart: an instance of \<open>Error\<close> with
  its message, a string, another object (with its \<open>message\<close> property as a string, when it
  has one), or anything else.
\<close>

datatype thrown =
    ErrorObject jsstring
  | StringValue jsstring
  | ObjectValue "jsstring option"
  | OtherValue

section \<open>YouTubeVideoCard\<close>

text \<open>
  \<^verbatim>\<open>const truncateTitle = (title: string, maxLength = 50) =>
    title.length > maxLength ? title.substring(0, maxLength) + '...' : title;\<close>
  The optional argument is \<open>None\<close> when the caller omits it, as the card does.
\<close>

definition truncateTitle :: "jsstring \<Rightarrow> int option \<Rightarrow> jsstring" where
  "truncateTitle title' maxLength' =
     (let maxLength = (case maxLength' of None \<Rightarrow> 50 | Some m \<Rightarrow> m)
      in if int (length title') > maxLength
         then substring title' 0 maxLength @ js ''...''
         else title')"

section \<open>AIRecommendModal\<close>

subsection \<open>Messages and component state\<close>

text \<open>
  \<open>AIMessage\<close> and \<open>MovieRecommendation\<close> are declared in the module
  \<open>@/lib/ai-recommend.client\<close>, which the component imports. The record below has the
  fields that the component itself writes and reads: the roles \<open>'user'\<close> and
  \<open>'assistant'\<close>, the content, the timestamp (an ISO string, for which the load effect
  provides when it is missing) and the optional recommendations that
  \<open>ExtendedAIMessage\<close> adds. The type of a recommendation is a type parameter. A field
  that is absent is \<open>None\<close>.
\<close>

datatype role = User | Assistant

record 'r ExtendedAIMessage =
  role :: role
  content :: jsstring
  timestamp :: "jsstring option"
  recommendations :: "'r list option"

record chat_error =
  message :: jsstring
  details :: "jsstring option"

text \<open>The four \<open>useState\<close> cells of the modal, with their initial values.\<close>

record 'r chat =
  messages :: "'r ExtendedAIMessage list"
  inputMessage :: jsstring
  isLoading :: bool
  error :: "chat_error option"

definition initial_chat :: "'r chat" where
  "initial_chat = \<lparr>messages = [], inputMessage = [], isLoading = False, error = None\<rparr>"

subsection \<open>The browser: local storage, console and the remote endpoint\<close>

text \<open>
  A string kept in local storage is represented by what the load effect makes of it: the
  empty string, a string on which \<open>JSON.parse\<close>, the destructuring or \<open>.map\<close> throws, or
  the record \<open>{messages, timestamp}\<close> that \<open>JSON.stringify\<close> wrote.
\<close>

datatype 'r storedValue =
    EmptyString
  | Unreadable
  | CacheRecord "'r ExtendedAIMessage list" int

datatype 'r effect =
    ConsoleError jsstring
  | SetItem jsstring "'r storedValue"
  | RemoveItem jsstring
  | SendAIRecommendMessage "'r ExtendedAIMessage list"

text \<open>
  The storage maps keys to stored strings. Each of its three operations may throw (storage
  disabled, quota exceeded); the trace records the calls the component makes, in order.
\<close>

record 'r browser =
  localStorage :: "jsstring \<Rightarrow> 'r storedValue option"
  getItem_throws :: bool
  setItem_throws :: bool
  removeItem_throws :: bool
  trace :: "'r effect list"

definition emit :: "'r effect \<Rightarrow> 'r browser \<Rightarrow> 'r browser" where
  "emit e b = b\<lparr>trace := trace b @ [e]\<rparr>"

text \<open>Each operation returns \<open>None\<close> when it throws.\<close>

definition getItem :: "jsstring \<Rightarrow> 'r browser \<Rightarrow> 'r storedValue option option" where
  "getItem k b = (if getItem_throws b then None else Some (localStorage b k))"

definition setItem :: "jsstring \<Rightarrow> 'r storedValue \<Rightarrow> 'r browser \<Rightarrow> 'r browser option" where
  "setItem k v b =
     (if setItem_throws b then None
      else Some (b\<lparr>localStorage := (localStorage b)(k \<mapsto> v)\<rparr>))"

definition removeItem_storage :: "jsstring \<Rightarrow> 'r browser \<Rightarrow> 'r browser option" where
  "removeItem_storage k b =
     (if removeItem_throws b then None
      else Some (b\<lparr>localStorage := (localStorage b)(k := None)\<rparr>))"

definition cache_key :: jsstring where
  "cache_key = js ''ai-recommend-messages''"

definition welcome_content :: jsstring where
  "welcome_content =
     [0x4F60, 0x597D, 0xFF01, 0x6211, 0x662F, 0x41, 0x49, 0x5F71, 0x89C6, 0x63A8, 0x8350,
      0x52A9, 0x624B, 0xFF0C, 0x53EF, 0x4EE5, 0x6839, 0x636E, 0x4F60, 0x7684, 0x559C, 0x597D,
      0x4E3A, 0x4F60, 0x63A8, 0x8350, 0x7CBE, 0x5F69, 0x7684, 0x5F71, 0x89C6, 0x4F5C, 0x54C1,
      0x3002, 0x8BF7, 0x544A, 0x8BC9, 0x6211, 0x4F60, 0x60F3, 0x770B, 0x4EC0, 0x4E48, 0x7C7B,
      0x578B, 0x7684, 0x5F71, 0x7247, 0xFF0C, 0x6216, 0x8005, 0x63CF, 0x8FF0, 0x4E00, 0x4E0B,
      0x4F60, 0x7684, 0x5FC3, 0x60C5, 0x548C, 0x504F, 0x597D, 0x5427, 0xFF01]"

definition welcomeMessage :: "jsstring \<Rightarrow> 'r ExtendedAIMessage" where
  "welcomeMessage isoNow =
     \<lparr>role = Assistant, content = welcome_content, timestamp = Some isoNow,
      recommendations = None\<rparr>"

subsection \<open>The save effect\<close>

text \<open>
  \<^verbatim>\<open>useEffect(() => { scrollToBottom();
    try { const cache = { messages, timestamp: new Date().getTime() };
          localStorage.setItem('ai-recommend-messages', JSON.stringify(cache)); }
    catch (error) { console.error("Failed to save messages to cache", error); }
  }, [messages]);\<close>
  \<open>now\<close> is the clock read by the effect; scrolling is not modelled.
\<close>

definition save_effect :: "int \<Rightarrow> 'r ExtendedAIMessage list \<Rightarrow> 'r browser \<Rightarrow> 'r browser" where
  "save_effect now msgs b =
     (let cache = CacheRecord msgs now;
          b1 = emit (SetItem cache_key cache) b
      in case setItem cache_key cache b1 of
           Some b2 \<Rightarrow> b2
         | None \<Rightarrow> emit (ConsoleError (js ''Failed to save messages to cache'')) b1)"

subsection \<open>The load effect\<close>

text \<open>
  The callback of \<open>storedMessages.map\<close>:
  \<^verbatim>\<open>{ ...msg, timestamp: msg.timestamp || new Date().toISOString() }\<close>
\<close>

definition restore :: "jsstring \<Rightarrow> 'r ExtendedAIMessage \<Rightarrow> 'r ExtendedAIMessage" where
  "restore isoNow msg = msg\<lparr>timestamp := Some (or_else (timestamp msg) isoNow)\<rparr>"

text \<open>
  The first effect of the component. \<open>now\<close> and \<open>isoNow\<close> are the clock as \<open>getTime()\<close> and
  as \<open>toISOString()\<close> give it during the run. The result is the argument of the call to
  \<open>setMessages\<close>, or \<open>None\<close> when the effect ends without calling it.
\<close>

definition load_effect ::
  "int \<Rightarrow> jsstring \<Rightarrow> 'r browser \<Rightarrow> 'r ExtendedAIMessage list option \<times> 'r browser" where
  "load_effect now isoNow b =
     (let failed = (None, emit (ConsoleError (js ''Failed to load messages from cache'')) b);
          welcome = (Some [welcomeMessage isoNow], b)
      in case getItem cache_key b of
           None \<Rightarrow> failed
         | Some None \<Rightarrow> welcome
         | Some (Some EmptyString) \<Rightarrow> welcome
         | Some (Some Unreadable) \<Rightarrow> failed
         | Some (Some (CacheRecord storedMessages timestamp')) \<Rightarrow>
             if now - timestamp' < 30 * 60 * 1000
             then (Some (map (restore isoNow) storedMessages), b)
             else welcome)"

text \<open>
  Mounting the modal: the first render has the initial state; the load effect runs, then
  the save effect runs on the first render's (empty) transcript at \<open>t1\<close>; when the load
  effect has set the transcript, the component renders again and the save effect, whose
  dependency is \<open>[messages]\<close>, runs on the new transcript at \<open>t2\<close>.
\<close>

definition mount :: "int \<Rightarrow> jsstring \<Rightarrow> int \<Rightarrow> int \<Rightarrow> 'r browser \<Rightarrow> 'r chat \<times> 'r browser" where
  "mount now isoNow t1 t2 b =
     (case load_effect now isoNow b of
        (loaded, b1) \<Rightarrow>
          let b2 = save_effect t1 (messages (initial_chat :: 'r chat)) b1
          in case loaded of
               None \<Rightarrow> (initial_chat, b2)
             | Some msgs \<Rightarrow>
                 (initial_chat\<lparr>messages := msgs\<rparr>, save_effect t2 msgs b2))"

subsection \<open>Sending a message\<close>

text \<open>
  The reply of \<open>sendAIRecommendMessage\<close>: the promise resolves with a response or rejects
  with a thrown value. Of each element of \<open>choices\<close> the component reads
  \<open>message.content\<close> only.
\<close>

record 'r response =
  choices :: "jsstring list"
  response_recommendations :: "'r list option"

datatype 'r reply = Resolves "'r response" | Rejects thrown

text \<open>
  Two things the JavaScript engine decides: what \<open>JSON.parse\<close> makes of an error message
  (\<open>None\<close> when it throws or yields \<open>null\<close>, else the \<open>error\<close> and \<open>details\<close> properties of
  the value), and the message of the \<open>TypeError\<close> raised by reading a property of
  \<open>undefined\<close>.
\<close>

record error_json =
  json_error :: "jsstring option"
  json_details :: "jsstring option"

record engine =
  JSON_parse :: "jsstring \<Rightarrow> error_json option"
  TypeError_message :: jsstring

definition contact_admin_details :: jsstring where
  "contact_admin_details =
     [0x5982, 0x679C, 0x95EE, 0x9898, 0x6301, 0x7EED, 0xFF0C, 0x8BF7, 0x8054, 0x7CFB, 0x7BA1,
      0x7406, 0x5458, 0x68C0, 0x67E5, 0x41, 0x49, 0x914D, 0x7F6E]"

definition request_failed_message :: jsstring where
  "request_failed_message =
     [0x8BF7, 0x6C42, 0x5931, 0x8D25, 0xFF0C, 0x8BF7, 0x7A0D, 0x540E, 0x91CD, 0x8BD5]"

definition unknown_error_details :: jsstring where
  "unknown_error_details =
     [0x672A, 0x77E5, 0x9519, 0x8BEF, 0xFF0C, 0x8BF7, 0x68C0, 0x67E5, 0x7F51, 0x7EDC, 0x8FDE,
      0x63A5]"

definition request_failed_label :: jsstring where
  "request_failed_label = [0x41, 0x49, 0x63A8, 0x8350, 0x8BF7, 0x6C42, 0x5931, 0x8D25, 0x3A]"

text \<open>The body of the \<open>catch\<close> clause of \<open>sendMessage\<close>: the error it sets.\<close>

definition catch_error :: "engine \<Rightarrow> thrown \<Rightarrow> chat_error" where
  "catch_error E e =
     (case e of
        ErrorObject m \<Rightarrow>
          (case JSON_parse E m of
             Some errorResponse \<Rightarrow>
               \<lparr>message = or_else (json_error errorResponse) m,
                details = json_details errorResponse\<rparr>
           | None \<Rightarrow> \<lparr>message = m, details = Some contact_admin_details\<rparr>)
      | _ \<Rightarrow> \<lparr>message = request_failed_message, details = Some unknown_error_details\<rparr>)"

text \<open>
  What the \<open>try\<close> block gets from the awaited call: the content of the first choice and
  the optional recommendations, or the value thrown. Reading \<open>choices[0].message\<close> of a
  response without choices raises a \<open>TypeError\<close>.
\<close>

definition await_reply :: "engine \<Rightarrow> 'r reply \<Rightarrow> thrown + jsstring \<times> 'r list option" where
  "await_reply E r =
     (case r of
        Rejects e \<Rightarrow> Inl e
      | Resolves resp \<Rightarrow>
          (case choices resp of
             [] \<Rightarrow> Inl (ErrorObject (TypeError_message E))
           | c # _ \<Rightarrow> Inr (c, response_recommendations resp)))"

text \<open>The two messages that \<open>sendMessage\<close> builds.\<close>

definition userMessage :: "jsstring \<Rightarrow> jsstring \<Rightarrow> 'r ExtendedAIMessage" where
  "userMessage content' isoNow =
     \<lparr>role = User, content = trim content', timestamp = Some isoNow,
      recommendations = None\<rparr>"

definition assistantMessage ::
  "jsstring \<Rightarrow> jsstring \<Rightarrow> 'r list option \<Rightarrow> 'r ExtendedAIMessage" where
  "assistantMessage c isoNow recs =
     \<lparr>role = Assistant, content = c, timestamp = Some isoNow,
      recommendations = Some (case recs of None \<Rightarrow> [] | Some rs \<Rightarrow> rs)\<rparr>"

text \<open>
  \<open>sendMessage(content)\<close>, run from the event to the end of its \<open>finally\<close> clause with no
  other event in between. The handler reads \<open>messages\<close> and \<open>isLoading\<close> of the render
  that precedes the event, which are those of the state. \<open>iso1\<close> and \<open>iso2\<close> are the
  clock when the user message and the assistant message are built; \<open>t1\<close> and \<open>t2\<close> are the
  clock when the save effect runs after each of the two changes of the transcript. The
  request leaves before the first of these renders.
\<close>

definition sendMessage ::
  "engine \<Rightarrow> jsstring \<Rightarrow> int \<Rightarrow> jsstring \<Rightarrow> int \<Rightarrow> jsstring \<Rightarrow> 'r reply \<Rightarrow>
   'r chat \<times> 'r browser \<Rightarrow> 'r chat \<times> 'r browser" where
  "sendMessage E iso1 t1 iso2 t2 content' reply sb =
     (case sb of (st, b) \<Rightarrow>
        if trim content' = [] \<or> isLoading st then (st, b)
        else
          let st1 = st\<lparr>messages := messages st @ [userMessage content' iso1],
                       inputMessage := [], isLoading := True, error := None\<rparr>;
              updatedMessages = messages st @ [userMessage content' iso1];
              conversationHistory = slice_list (- 8) updatedMessages;
              b1 = emit (SendAIRecommendMessage conversationHistory) b;
              b2 = save_effect t1 (messages st1) b1
          in case await_reply E reply of
               Inr (c, recs) \<Rightarrow>
                 let st2 = st1\<lparr>messages := updatedMessages @ [assistantMessage c iso2 recs],
                               isLoading := False\<rparr>
                 in (st2, save_effect t2 (messages st2) b2)
             | Inl e \<Rightarrow>
                 (st1\<lparr>error := Some (catch_error E e), isLoading := False\<rparr>,
                  emit (ConsoleError request_failed_label) b2))"

subsection \<open>Resetting the chat\<close>

text \<open>
  \<open>resetChat\<close>, followed by the save effect of the render it causes (at \<open>t\<close>).
\<close>

definition resetChat :: "jsstring \<Rightarrow> int \<Rightarrow> 'r chat \<times> 'r browser \<Rightarrow> 'r chat \<times> 'r browser" where
  "resetChat isoNow t sb =
     (case sb of (st, b) \<Rightarrow>
        let b0 = emit (RemoveItem cache_key) b;
            b1 = (case removeItem_storage cache_key b0 of
                    Some b' \<Rightarrow> b'
                  | None \<Rightarrow> emit (ConsoleError (js ''Failed to clear messages cache'')) b0);
            st1 = st\<lparr>messages := [welcomeMessage isoNow], error := None, inputMessage := []\<rparr>
        in (st1, save_effect t (messages st1) b1))"

subsection \<open>Reading the trace\<close>

fun requests :: "'r effect list \<Rightarrow> 'r ExtendedAIMessage list list" where
  "requests [] = []"
| "requests (SendAIRecommendMessage h # es) = h # requests es"
| "requests (_ # es) = requests es"

fun writes :: "'r effect list \<Rightarrow> (jsstring \<times> 'r storedValue) list" where
  "writes [] = []"
| "writes (SetItem k v # es) = (k, v) # writes es"
| "writes (_ # es) = writes es"

fun console_errors :: "'r effect list \<Rightarrow> jsstring list" where
  "console_errors [] = []"
| "console_errors (ConsoleError l # es) = l # console_errors es"
| "console_errors (_ # es) = console_errors es"

section \<open>AIRecommendConfig\<close>

record aiSettings =
  enabled :: bool
  apiUrl :: jsstring
  apiKey :: jsstring
  model :: jsstring
  temperature :: jsnumber
  maxTokens :: jsnumber

datatype message_type = Success | Error

text \<open>The state of the panel: the settings being edited and the two other cells.\<close>

record config_panel =
  settings :: aiSettings
  panel_isLoading :: bool
  panel_message :: "(message_type \<times> jsstring) option"

text \<open>
  \<open>showMessage\<close> sets the message; the timer that clears it three seconds later is not
  modelled.
\<close>

definition showMessage :: "message_type \<Rightarrow> jsstring \<Rightarrow> config_panel \<Rightarrow> config_panel" where
  "showMessage ty text' p = p\<lparr>panel_message := Some (ty, text')\<rparr>"

text \<open>The two requests of the panel, both \<open>POST\<close> with a JSON body.\<close>

datatype request_body =
    SettingsBody aiSettings
  | TestBody jsstring jsstring jsstring

datatype http_request = POST jsstring request_body

text \<open>
  What \<open>fetch\<close> gives: it rejects, or it resolves with a response that is not \<open>ok\<close>
  (with what \<open>response.json()\<close> gives, a thrown value or the \<open>error\<close> property of the
  body, and with the status in decimal and the status text), or with one that is \<open>ok\<close>.
\<close>

datatype http_reply =
    FetchRejects thrown
  | NotOk "thrown + jsstring option" jsstring jsstring
  | Ok

definition fill_url_text :: jsstring where
  "fill_url_text = [0x8BF7, 0x586B, 0x5199, 0x41, 0x50, 0x49, 0x5730, 0x5740]"

definition fill_key_text :: jsstring where
  "fill_key_text = [0x8BF7, 0x586B, 0x5199, 0x41, 0x50, 0x49, 0x5BC6, 0x94A5]"

definition fill_model_text :: jsstring where
  "fill_model_text =
     [0x8BF7, 0x9009, 0x62E9, 0x6216, 0x586B, 0x5199, 0x6A21, 0x578B, 0x540D, 0x79F0]"

definition temperature_range_text :: jsstring where
  "temperature_range_text =
     [0x6E29, 0x5EA6, 0x53C2, 0x6570, 0x5E94, 0x5728, 0x30, 0x2D, 0x32, 0x4E4B, 0x95F4]"

definition maxTokens_range_text :: jsstring where
  "maxTokens_range_text =
     [0x6700, 0x5927, 0x54, 0x6F, 0x6B, 0x65, 0x6E, 0x6570, 0x5E94, 0x5728, 0x31, 0x2D, 0x34,
      0x30, 0x30, 0x30, 0x4E4B, 0x95F4]"

definition save_failed_text :: jsstring where
  "save_failed_text = [0x4FDD, 0x5B58, 0x5931, 0x8D25]"

definition save_succeeded_text :: jsstring where
  "save_succeeded_text =
     [0x41, 0x49, 0x63A8, 0x8350, 0x914D, 0x7F6E, 0x4FDD, 0x5B58, 0x6210, 0x529F]"

definition fill_url_and_key_text :: jsstring where
  "fill_url_and_key_text =
     [0x8BF7, 0x5148, 0x586B, 0x5199, 0x41, 0x50, 0x49, 0x5730, 0x5740, 0x548C, 0x5BC6,
      0x94A5]"

definition test_failed_text :: jsstring where
  "test_failed_text = [0x41, 0x50, 0x49, 0x8FDE, 0x63A5, 0x6D4B, 0x8BD5, 0x5931, 0x8D25]"

definition test_succeeded_text :: jsstring where
  "test_succeeded_text =
     [0x41, 0x50, 0x49, 0x8FDE, 0x63A5, 0x6D4B, 0x8BD5, 0x6210, 0x529F, 0xFF01]"

definition connection_failed_text :: jsstring where
  "connection_failed_text =
     [0x41, 0x50, 0x49, 0x8FDE, 0x63A5, 0x5931, 0x8D25, 0xFF0C, 0x8BF7, 0x68C0, 0x67E5,
      0x7F51, 0x7EDC, 0x6216, 0x41, 0x50, 0x49, 0x914D, 0x7F6E]"

subsection \<open>Saving\<close>

text \<open>
  The validation block at the head of \<open>handleSave\<close>: the text of the error it shows
  before returning, or \<open>None\<close> when it lets the save go on.
\<close>

definition save_validation :: "aiSettings \<Rightarrow> jsstring option" where
  "save_validation s =
     (if enabled s then
        (if trim (apiUrl s) = [] then Some fill_url_text
         else if trim (apiKey s) = [] then Some fill_key_text
         else if trim (model s) = [] then Some fill_model_text
         else if js_less (temperature s) (Finite 0) \<or> js_greater (temperature s) (Finite 2)
           then Some temperature_range_text
         else if js_less (maxTokens s) (Finite 1) \<or> js_greater (maxTokens s) (Finite 4000)
           then Some maxTokens_range_text
         else None)
      else None)"

text \<open>
  \<open>handleSave\<close> with the reply of \<open>fetch\<close> and the outcome of \<open>refreshConfig\<close>
  (\<open>None\<close> when it returns, else the value it throws). The result is the panel at the end
  and the requests issued.
\<close>

definition handleSave ::
  "http_reply \<Rightarrow> thrown option \<Rightarrow> config_panel \<Rightarrow> config_panel \<times> http_request list" where
  "handleSave reply refresh p =
     (case save_validation (settings p) of
        Some text' \<Rightarrow> (showMessage Error text' p, [])
      | None \<Rightarrow>
          let request = POST (js ''/api/admin/ai-recommend'') (SettingsBody (settings p));
              p1 = p\<lparr>panel_isLoading := True\<rparr>;
              caught =
                (case reply of
                   FetchRejects e \<Rightarrow> Some e
                 | NotOk (Inl e) _ _ \<Rightarrow> Some e
                 | NotOk (Inr errorData_error) _ _ \<Rightarrow>
                     Some (ErrorObject (or_else errorData_error save_failed_text))
                 | Ok \<Rightarrow> refresh);
              p2 =
                (case caught of
                   None \<Rightarrow> showMessage Success save_succeeded_text p1
                 | Some err \<Rightarrow>
                     showMessage Error
                       (case err of ErrorObject m \<Rightarrow> m | _ \<Rightarrow> save_failed_text) p1)
          in (p2\<lparr>panel_isLoading := False\<rparr>, [request]))"

subsection \<open>Testing the connection\<close>

text \<open>
  \<open>handleTest\<close> with the reply of \<open>fetch\<close>; the console output of its \<open>catch\<close>
  clause is not modelled.
\<close>

definition handleTest :: "http_reply \<Rightarrow> config_panel \<Rightarrow> config_panel \<times> http_request list" where
  "handleTest reply p =
     (let s = settings p in
      if trim (apiUrl s) = [] \<or> trim (apiKey s) = []
      then (showMessage Error fill_url_and_key_text p, [])
      else
        let request =
              POST (js ''/api/admin/ai-recommend/test'')
                (TestBody (apiUrl s) (apiKey s) (model s));
            p1 = p\<lparr>panel_isLoading := True\<rparr>;
            caught =
              (case reply of
                 FetchRejects e \<Rightarrow> Some e
               | NotOk (Inl _) status statusText \<Rightarrow>
                   Some (ErrorObject (js ''HTTP '' @ status @ js '': '' @ statusText))
               | NotOk (Inr errorData_error) _ _ \<Rightarrow>
                   Some (ErrorObject (or_else errorData_error test_failed_text))
               | Ok \<Rightarrow> None);
            p2 =
              (case caught of
                 None \<Rightarrow> showMessage Success test_succeeded_text p1
               | Some err \<Rightarrow>
                   showMessage Error
                     (case err of
                        ErrorObject m \<Rightarrow> m
                      | StringValue m \<Rightarrow> m
                      | ObjectValue (Some m) \<Rightarrow> m
                      | ObjectValue None \<Rightarrow> connection_failed_text
                      | OtherValue \<Rightarrow> test_failed_text) p1)
        in (p2\<lparr>panel_isLoading := False\<rparr>, [request]))"

subsection \<open>The data model of the specification\<close>

text \<open>
  The specification gives every chat message a timestamp, an ISO date and time. This
  predicate follows those words, not the code: a message has a timestamp when the field is
  present and not empty. Every message that the component builds or restores has one.
\<close>

definition has_timestamp :: "'r ExtendedAIMessage \<Rightarrow> bool" where
  "has_timestamp m = (case timestamp m of None \<Rightarrow> False | Some s \<Rightarrow> s \<noteq> [])"

text \<open>
  The specification gives the temperature as a number in \<open>[0, 2]\<close> and the token limit as
  a number in \<open>[1, 4000]\<close>. This predicate follows those words, not the code: a value is
  in the range when it is a number between the bounds.
\<close>

definition within_range :: "real \<Rightarrow> real \<Rightarrow> jsnumber \<Rightarrow> bool" where
  "within_range lo hi x = (case x of Finite r \<Rightarrow> lo \<le> r \<and> r \<le> hi | _ \<Rightarrow> False)"

section \<open>Sample inputs\<close>

definition sample_engine :: engine where
  "sample_engine =
     \<lparr>JSON_parse = (\<lambda>_. None),
      TypeError_message = js ''Cannot read properties of undefined (reading 'message')''\<rparr>"

text \<open>A browser whose storage holds \<open>v\<close> under the key of the modal and nothing else.\<close>

definition sample_storage :: "nat storedValue option \<Rightarrow> nat browser" where
  "sample_storage v =
     \<lparr>localStorage = (\<lambda>k. if k = cache_key then v else None), getItem_throws = False,
      setItem_throws = False, removeItem_throws = False, trace = []\<rparr>"

definition sample_message :: "nat \<Rightarrow> nat ExtendedAIMessage" where
  "sample_message n =
     \<lparr>role = User, content = js ''hello'', timestamp = Some (js ''2025-01-01T00:00:00.000Z''),
      recommendations = Some [n]\<rparr>"

definition sample_chat :: "nat chat" where
  "sample_chat = initial_chat\<lparr>messages := map sample_message [1, 2, 3, 4, 5, 6, 7, 8, 9]\<rparr>"

definition sample_response :: "nat response" where
  "sample_response = \<lparr>choices = [js ''Try Inception''], response_recommendations = None\<rparr>"

text \<open>
  Settings as the panel holds them when the token field has been emptied
  (\<open>parseInt('')\<close> is NaN), settings with an empty model name, and settings that pass.
\<close>

definition no_maxTokens_settings :: aiSettings where
  "no_maxTokens_settings =
     \<lparr>enabled = True, apiUrl = js ''https://api.openai.com/v1'', apiKey = js ''sk-test'',
      model = js ''gpt-3.5-turbo'', temperature = Finite 0.7, maxTokens = NaN\<rparr>"

definition no_model_settings :: aiSettings where
  "no_model_settings =
     \<lparr>enabled = True, apiUrl = js ''https://api.openai.com/v1'', apiKey = js ''sk-test'',
      model = [], temperature = Finite 0.7, maxTokens = Finite 1000\<rparr>"

definition valid_settings :: aiSettings where
  "valid_settings =
     \<lparr>enabled = True, apiUrl = js ''https://api.openai.com/v1'', apiKey = js ''sk-test'',
      model = js ''gpt-3.5-turbo'', temperature = Finite 0.7, maxTokens = Finite 1000\<rparr>"

definition panel_with :: "aiSettings \<Rightarrow> config_panel" where
  "panel_with s = \<lparr>settings = s, panel_isLoading = False, panel_message = None\<rparr>"

section \<open>Properties of the string functions\<close>

lemma length_js: "length (js s) = length s"
  by (simp add: js_def)

lemma substring_prefix: "0 \<le> m \<Longrightarrow> substring s 0 m = take (nat m) s"
  by (auto simp: substring_def Let_def min_def max_def)

lemma slice_list_last: "0 < n \<Longrightarrow> slice_list (- int n) xs = drop (length xs - n) xs"
  by (auto simp: slice_list_def Let_def max_def nat_diff_distrib')

lemma slice_list_8: "slice_list (- 8) xs = drop (length xs - 8) xs"
  using slice_list_last [of 8 xs] by simp

lemma hi_not_blank: "trim (js ''hi'') \<noteq> []"
  by (simp add: trim_def js_def trimmable_def WhiteSpace_def LineTerminator_def)

lemma trim_blank: "trim (js ''  '') = []"
  by (simp add: trim_def js_def trimmable_def WhiteSpace_def LineTerminator_def)

text \<open>
  C10. For every title, \<open>truncateTitle\<close> with the default maximum returns the title
  unchanged when it has at most 50 code units, and otherwise its first 50 code units
  followed by three full stops; the result never has more than 53 code units.
\<close>

theorem truncateTitle_default:
  "(length t \<le> 50 \<longrightarrow> truncateTitle t None = t) \<and>
   (50 < length t \<longrightarrow> truncateTitle t None = take 50 t @ js ''...'') \<and>
   length (truncateTitle t None) \<le> 53"
  by (auto simp: truncateTitle_def substring_prefix length_js)

theorem truncateTitle_default_witness:
  "truncateTitle (js ''Short title'') None = js ''Short title'' \<and>
   truncateTitle (replicate 51 0x61) None = replicate 50 0x61 @ js ''...''"
  using truncateTitle_default [of "js ''Short title''"]
    truncateTitle_default [of "replicate 51 0x61"]
  by (simp add: length_js)

section \<open>Properties of the browser operations\<close>

lemma emit_simps [simp]:
  "trace (emit e b) = trace b @ [e]"
  "localStorage (emit e b) = localStorage b"
  "getItem_throws (emit e b) = getItem_throws b"
  "setItem_throws (emit e b) = setItem_throws b"
  "removeItem_throws (emit e b) = removeItem_throws b"
  by (simp_all add: emit_def)

lemma requests_append [simp]: "requests (xs @ ys) = requests xs @ requests ys"
  by (induction xs rule: requests.induct) simp_all

lemma writes_append [simp]: "writes (xs @ ys) = writes xs @ writes ys"
  by (induction xs rule: writes.induct) simp_all

lemma console_errors_append [simp]:
  "console_errors (xs @ ys) = console_errors xs @ console_errors ys"
  by (induction xs rule: console_errors.induct) simp_all

lemma save_effect_trace:
  "trace (save_effect now msgs b) =
     trace b @ SetItem cache_key (CacheRecord msgs now) #
       (if setItem_throws b then [ConsoleError (js ''Failed to save messages to cache'')]
        else [])"
  by (simp add: save_effect_def setItem_def Let_def)

lemma save_effect_flags [simp]:
  "getItem_throws (save_effect now msgs b) = getItem_throws b"
  "setItem_throws (save_effect now msgs b) = setItem_throws b"
  "removeItem_throws (save_effect now msgs b) = removeItem_throws b"
  by (simp_all add: save_effect_def setItem_def Let_def)

lemma save_effect_storage:
  "localStorage (save_effect now msgs b) =
     (if setItem_throws b then localStorage b
      else (localStorage b)(cache_key \<mapsto> CacheRecord msgs now))"
  by (simp add: save_effect_def setItem_def Let_def)

lemma writes_save_tail [simp]:
  "writes (if p then [ConsoleError l] else []) = []"
  by simp

lemma save_effect_writes:
  "writes (trace (save_effect now msgs b)) =
     writes (trace b) @ [(cache_key, CacheRecord msgs now)]"
  by (simp add: save_effect_trace)

lemma load_effect_browser:
  "localStorage (snd (load_effect now isoNow b)) = localStorage b"
  "setItem_throws (snd (load_effect now isoNow b)) = setItem_throws b"
  "writes (trace (snd (load_effect now isoNow b))) = writes (trace b)"
  by (simp_all add: load_effect_def Let_def getItem_def
      split: option.splits storedValue.splits)

lemma mount_state:
  "fst (mount now isoNow t1 t2 b) =
     (case fst (load_effect now isoNow b) of
        None \<Rightarrow> initial_chat
      | Some msgs \<Rightarrow> initial_chat\<lparr>messages := msgs\<rparr>)"
  by (simp add: mount_def Let_def split: prod.splits option.splits)

lemma mount_writes:
  "writes (trace (snd (mount now isoNow t1 t2 b))) =
     writes (trace b) @ (cache_key, CacheRecord [] t1) #
       (case fst (load_effect now isoNow b) of
          None \<Rightarrow> []
        | Some msgs \<Rightarrow> [(cache_key, CacheRecord msgs t2)])"
proof (cases "load_effect now isoNow b")
  case (Pair loaded b1)
  then have "writes (trace b1) = writes (trace b)"
    using load_effect_browser(3) [of now isoNow b] by simp
  with Pair show ?thesis
    by (simp add: mount_def Let_def save_effect_writes initial_chat_def split: option.splits)
qed

lemma mount_storage:
  "\<not> setItem_throws b \<Longrightarrow>
   localStorage (snd (mount now isoNow t1 t2 b)) cache_key =
     Some (case fst (load_effect now isoNow b) of
             None \<Rightarrow> CacheRecord [] t1
           | Some msgs \<Rightarrow> CacheRecord msgs t2)"
proof (cases "load_effect now isoNow b")
  case (Pair loaded b1)
  assume w: "\<not> setItem_throws b"
  from Pair have "setItem_throws b1 = setItem_throws b"
    using load_effect_browser(2) [of now isoNow b] by simp
  with Pair w show ?thesis
    by (simp add: mount_def Let_def save_effect_storage initial_chat_def split: option.splits)
qed

lemma resetChat_state:
  "fst (resetChat isoNow t (st, b)) =
     st\<lparr>messages := [welcomeMessage isoNow], error := None, inputMessage := []\<rparr>"
  by (simp add: resetChat_def Let_def)

lemma resetChat_writes:
  "writes (trace (snd (resetChat isoNow t (st, b)))) =
     writes (trace b) @ [(cache_key, CacheRecord [welcomeMessage isoNow] t)]"
  by (simp add: resetChat_def Let_def save_effect_writes removeItem_storage_def)

lemma resetChat_storage:
  "\<not> setItem_throws b \<Longrightarrow>
   localStorage (snd (resetChat isoNow t (st, b))) cache_key =
     Some (CacheRecord [welcomeMessage isoNow] t)"
  by (simp add: resetChat_def Let_def save_effect_storage removeItem_storage_def)

section \<open>Properties of sendMessage\<close>

lemma sample_chat_idle: "\<not> isLoading sample_chat"
  by (simp add: sample_chat_def initial_chat_def)

text \<open>The state and the trace at the end of a run that passes the guard.\<close>

lemma sendMessage_state:
  assumes "trim c \<noteq> []" and "\<not> isLoading st"
  shows "fst (sendMessage E iso1 t1 iso2 t2 c reply (st, b)) =
     (case await_reply E reply of
        Inr (c0, recs) \<Rightarrow>
          st\<lparr>messages := messages st @ [userMessage c iso1, assistantMessage c0 iso2 recs],
             inputMessage := [], isLoading := False, error := None\<rparr>
      | Inl e \<Rightarrow>
          st\<lparr>messages := messages st @ [userMessage c iso1], inputMessage := [],
             isLoading := False, error := Some (catch_error E e)\<rparr>)"
  using assms by (simp add: sendMessage_def Let_def split: sum.splits prod.splits)

lemma sendMessage_trace:
  assumes "trim c \<noteq> []" and "\<not> isLoading st"
  shows "trace (snd (sendMessage E iso1 t1 iso2 t2 c reply (st, b))) =
     trace b
     @ [SendAIRecommendMessage (slice_list (- 8) (messages st @ [userMessage c iso1]))]
     @ SetItem cache_key (CacheRecord (messages st @ [userMessage c iso1]) t1)
       # (if setItem_throws b then [ConsoleError (js ''Failed to save messages to cache'')]
          else [])
     @ (case await_reply E reply of
          Inr (c0, recs) \<Rightarrow>
            SetItem cache_key
              (CacheRecord
                 (messages st @ [userMessage c iso1, assistantMessage c0 iso2 recs]) t2)
            # (if setItem_throws b
               then [ConsoleError (js ''Failed to save messages to cache'')] else [])
        | Inl e \<Rightarrow> [ConsoleError request_failed_label])"
  using assms
  by (simp add: sendMessage_def Let_def save_effect_trace split: sum.splits prod.splits)

lemma sendMessage_requests:
  assumes "trim c \<noteq> []" and "\<not> isLoading st"
  shows "requests (trace (snd (sendMessage E iso1 t1 iso2 t2 c reply (st, b)))) =
     requests (trace b) @ [slice_list (- 8) (messages st @ [userMessage c iso1])]"
  using assms by (simp add: sendMessage_trace split: sum.splits)

lemma sendMessage_writes:
  assumes "trim c \<noteq> []" and "\<not> isLoading st"
  shows "writes (trace (snd (sendMessage E iso1 t1 iso2 t2 c reply (st, b)))) =
     writes (trace b) @ (cache_key, CacheRecord (messages st @ [userMessage c iso1]) t1) #
       (case await_reply E reply of
          Inl e \<Rightarrow> []
        | Inr (c0, recs) \<Rightarrow>
            [(cache_key,
              CacheRecord (messages st @ [userMessage c iso1, assistantMessage c0 iso2 recs])
                t2)])"
  using assms by (simp add: sendMessage_trace split: sum.splits)

lemma sendMessage_storage:
  assumes "trim c \<noteq> []" and "\<not> isLoading st" and "\<not> setItem_throws b"
  shows "localStorage (snd (sendMessage E iso1 t1 iso2 t2 c reply (st, b))) cache_key =
     Some (CacheRecord (messages (fst (sendMessage E iso1 t1 iso2 t2 c reply (st, b))))
       (case await_reply E reply of Inl e \<Rightarrow> t1 | Inr r \<Rightarrow> t2))"
  using assms
  by (simp add: sendMessage_def Let_def save_effect_storage split: sum.splits prod.splits)

text \<open>
  C1. For every transcript and every input that is not blank, the payload of the request
  that \<open>sendMessage\<close> issues is the last 8 messages of the transcript with the new user
  message appended: a suffix of that list of length \<open>min 8 n\<close>, hence the whole list when
  it has 8 or fewer messages, whatever the length of the transcript. The run issues this one
  request, and none while another request is in flight.
\<close>

theorem sendMessage_history:
  assumes "trim c \<noteq> []"
  shows "\<exists>hist.
     requests (trace (snd (sendMessage E iso1 t1 iso2 t2 c reply (st, b)))) =
       requests (trace b) @ (if isLoading st then [] else [hist])
     \<and> suffix hist (messages st @ [userMessage c iso1])
     \<and> length hist = min 8 (length (messages st @ [userMessage c iso1]))
     \<and> (length (messages st @ [userMessage c iso1]) \<le> 8 \<longrightarrow>
          hist = messages st @ [userMessage c iso1])"
proof -
  let ?u = "messages st @ [userMessage c iso1]"
  let ?h = "slice_list (- 8) ?u"
  have "suffix ?h ?u" unfolding slice_list_8 by (rule suffix_drop)
  moreover have "length ?h = min 8 (length ?u)" unfolding slice_list_8 by simp
  moreover have "length ?u \<le> 8 \<longrightarrow> ?h = ?u" unfolding slice_list_8 by simp
  moreover have "requests (trace (snd (sendMessage E iso1 t1 iso2 t2 c reply (st, b)))) =
       requests (trace b) @ (if isLoading st then [] else [?h])"
  proof (cases "isLoading st")
    case True
    then show ?thesis by (simp add: sendMessage_def)
  next
    case False
    with assms show ?thesis by (simp add: sendMessage_requests)
  qed
  ultimately show ?thesis by blast
qed

theorem sendMessage_history_witness:
  "trim (js ''hi'') \<noteq> [] \<and> \<not> isLoading sample_chat \<and>
   (\<exists>hist.
      requests (trace (snd (sendMessage sample_engine (js ''T1'') 1 (js ''T2'') 2 (js ''hi'')
         (Rejects OtherValue) (sample_chat, sample_storage None)))) = [hist]
      \<and> suffix hist (messages sample_chat @ [userMessage (js ''hi'') (js ''T1'')])
      \<and> length hist = 8)"
  using hi_not_blank sample_chat_idle
    sendMessage_history [OF hi_not_blank, of sample_engine "js ''T1''" 1 "js ''T2''" 2
      "Rejects OtherValue" sample_chat "sample_storage None"]
  by (auto simp: sample_chat_def sample_storage_def)



text \<open>
  C6. On a successful send (the promise resolves with a response that has a first choice),
  the transcript at the end is the full prior transcript, the user message, and exactly
  one assistant message; the content of that message is the content of the first choice
  and its recommendations are those of the response, or the empty list when the response
  has none.
\<close>

theorem sendMessage_success:
  assumes "trim c \<noteq> []" and "\<not> isLoading st"
    and "reply = Resolves r" and "choices r = c0 # cs"
  shows "messages (fst (sendMessage E iso1 t1 iso2 t2 c reply (st, b))) =
           (messages st @ [userMessage c iso1])
           @ [\<lparr>role = Assistant, content = c0, timestamp = Some iso2,
               recommendations =
                 Some (case response_recommendations r of None \<Rightarrow> [] | Some rs \<Rightarrow> rs)\<rparr>]"
  using assms by (simp add: sendMessage_state await_reply_def assistantMessage_def)

theorem sendMessage_success_witness:
  "trim (js ''hi'') \<noteq> [] \<and> \<not> isLoading sample_chat \<and>
   choices sample_response = [js ''Try Inception''] \<and>
   messages (fst (sendMessage sample_engine (js ''T1'') 1 (js ''T2'') 2 (js ''hi'')
      (Resolves sample_response) (sample_chat, sample_storage None))) =
     messages sample_chat @
       [userMessage (js ''hi'') (js ''T1''),
        \<lparr>role = Assistant, content = js ''Try Inception'', timestamp = Some (js ''T2''),
         recommendations = Some []\<rparr>]"
proof -
  have h: "choices sample_response = [js ''Try Inception'']"
    by (simp add: sample_response_def)
  show ?thesis
    using hi_not_blank sample_chat_idle h
      sendMessage_success [OF hi_not_blank sample_chat_idle refl h, of sample_engine
        "js ''T1''" 1 "js ''T2''" 2 "sample_storage None"]
    by (simp add: sample_response_def)
qed

text \<open>
  C9. For every input that is empty or consists of white space only, and for every input
  while a request is in flight (\<open>isLoading\<close> is set), \<open>sendMessage\<close> does nothing: the
  transcript, the input buffer, the error and the loading flag are unchanged, and so is
  the browser, so that no request is issued and nothing is written.
\<close>

theorem sendMessage_noop:
  "trim c = [] \<or> isLoading st \<Longrightarrow> sendMessage E iso1 t1 iso2 t2 c reply (st, b) = (st, b)"
  by (auto simp: sendMessage_def)

theorem sendMessage_noop_witness:
  "trim (js ''  '') = [] \<and>
   sendMessage sample_engine (js ''T1'') 1 (js ''T2'') 2 (js ''  '') (Rejects OtherValue)
     (sample_chat, sample_storage None) = (sample_chat, sample_storage None) \<and>
   isLoading (sample_chat\<lparr>isLoading := True\<rparr>) \<and>
   sendMessage sample_engine (js ''T1'') 1 (js ''T2'') 2 (js ''hi'') (Rejects OtherValue)
     (sample_chat\<lparr>isLoading := True\<rparr>, sample_storage None) =
     (sample_chat\<lparr>isLoading := True\<rparr>, sample_storage None)"
proof -
  have h1: "trim (js ''  '') = [] \<or> isLoading sample_chat"
    by (simp add: trim_blank)
  have h2: "trim (js ''hi'') = [] \<or> isLoading (sample_chat\<lparr>isLoading := True\<rparr>)"
    by simp
  show ?thesis
    using trim_blank
      sendMessage_noop [OF h1, of sample_engine "js ''T1''" 1 "js ''T2''" 2
        "Rejects OtherValue" "sample_storage None"]
      sendMessage_noop [OF h2, of sample_engine "js ''T1''" 1 "js ''T2''" 2
        "Rejects OtherValue" "sample_storage None"]
    by simp
qed

section \<open>Properties of the cached transcript\<close>

lemma sample_storage_simps [simp]:
  "localStorage (sample_storage v) cache_key = v"
  "\<not> getItem_throws (sample_storage v)"
  "\<not> setItem_throws (sample_storage v)"
  "\<not> removeItem_throws (sample_storage v)"
  "trace (sample_storage v) = []"
  by (simp_all add: sample_storage_def)

lemma restore_timed:
  "timestamp m = Some ts \<Longrightarrow> ts \<noteq> [] \<Longrightarrow> restore isoNow m = m"
  by (simp add: restore_def or_else_def)

lemma load_effect_read:
  "fst (load_effect now isoNow b) =
     (case getItem cache_key b of
        None \<Rightarrow> None
      | Some None \<Rightarrow> Some [welcomeMessage isoNow]
      | Some (Some EmptyString) \<Rightarrow> Some [welcomeMessage isoNow]
      | Some (Some Unreadable) \<Rightarrow> None
      | Some (Some (CacheRecord storedMessages ts)) \<Rightarrow>
          if now - ts < 30 * 60 * 1000 then Some (map (restore isoNow) storedMessages)
          else Some [welcomeMessage isoNow])"
  by (simp add: load_effect_def Let_def split: option.splits storedValue.splits)

lemma getItem_sample [simp]: "getItem cache_key (sample_storage v) = Some v"
  by (simp add: getItem_def)

text \<open>
  C5. Every change of the transcript is followed by a write of the full transcript, with
  the clock at the time of the write, under the one key of the modal. The save effect
  issues \<open>setItem\<close> with that key and the record of the messages it is given and the
  time it reads, and a storage that accepts the write holds exactly that record
  afterwards. Mounting writes the initial transcript and then the loaded one; a send
  writes the transcript with the user message and, on success, the transcript with the
  assistant message as well; a reset writes the transcript of the welcome message. In each
  case the messages written are all the messages of the state.
\<close>

theorem transcript_saved_on_every_change:
  "writes (trace (save_effect now msgs b)) =
     writes (trace b) @ [(cache_key, CacheRecord msgs now)]
   \<and> (\<not> setItem_throws b \<longrightarrow>
        localStorage (save_effect now msgs b) =
          (localStorage b)(cache_key \<mapsto> CacheRecord msgs now))
   \<and> writes (trace (snd (mount now isoNow t1 t2 b))) =
       writes (trace b) @ (cache_key, CacheRecord [] t1) #
         (case fst (load_effect now isoNow b) of
            None \<Rightarrow> []
          | Some loaded \<Rightarrow>
              [(cache_key, CacheRecord (messages (fst (mount now isoNow t1 t2 b))) t2)])
   \<and> (trim c \<noteq> [] \<and> \<not> isLoading st \<longrightarrow>
        writes (trace (snd (sendMessage E iso1 t1 iso2 t2 c reply (st, b)))) =
          writes (trace b) @ (cache_key, CacheRecord (messages st @ [userMessage c iso1]) t1) #
            (case await_reply E reply of
               Inl e \<Rightarrow> []
             | Inr r \<Rightarrow>
                 [(cache_key,
                   CacheRecord
                     (messages (fst (sendMessage E iso1 t1 iso2 t2 c reply (st, b)))) t2)]))
   \<and> writes (trace (snd (resetChat isoNow t (st, b)))) =
       writes (trace b) @
         [(cache_key, CacheRecord (messages (fst (resetChat isoNow t (st, b)))) t)]"
proof -
  have "writes (trace (snd (mount now isoNow t1 t2 b))) =
       writes (trace b) @ (cache_key, CacheRecord [] t1) #
         (case fst (load_effect now isoNow b) of
            None \<Rightarrow> []
          | Some loaded \<Rightarrow>
              [(cache_key, CacheRecord (messages (fst (mount now isoNow t1 t2 b))) t2)])"
    by (simp add: mount_writes mount_state split: option.splits)
  moreover have "trim c \<noteq> [] \<and> \<not> isLoading st \<longrightarrow>
        writes (trace (snd (sendMessage E iso1 t1 iso2 t2 c reply (st, b)))) =
          writes (trace b) @ (cache_key, CacheRecord (messages st @ [userMessage c iso1]) t1) #
            (case await_reply E reply of
               Inl e \<Rightarrow> []
             | Inr r \<Rightarrow>
                 [(cache_key,
                   CacheRecord
                     (messages (fst (sendMessage E iso1 t1 iso2 t2 c reply (st, b)))) t2)])"
    by (simp add: sendMessage_writes sendMessage_state split: sum.splits)
  moreover have "writes (trace (snd (resetChat isoNow t (st, b)))) =
       writes (trace b) @
         [(cache_key, CacheRecord (messages (fst (resetChat isoNow t (st, b)))) t)]"
    by (simp add: resetChat_writes resetChat_state)
  ultimately show ?thesis
    by (simp add: save_effect_writes save_effect_storage)
qed

theorem transcript_saved_on_every_change_witness:
  "\<not> setItem_throws (sample_storage None) \<and>
   localStorage (save_effect 5 (messages sample_chat) (sample_storage None)) cache_key =
     Some (CacheRecord (messages sample_chat) 5) \<and>
   trim (js ''hi'') \<noteq> [] \<and> \<not> isLoading sample_chat \<and>
   writes (trace (snd (sendMessage sample_engine (js ''T1'') 1 (js ''T2'') 2 (js ''hi'')
      (Resolves sample_response) (sample_chat, sample_storage None)))) =
     [(cache_key, CacheRecord (messages sample_chat @ [userMessage (js ''hi'') (js ''T1'')]) 1),
      (cache_key,
       CacheRecord
         (messages sample_chat @
            [userMessage (js ''hi'') (js ''T1''),
             assistantMessage (js ''Try Inception'') (js ''T2'') None]) 2)]"
proof -
  have r: "await_reply sample_engine (Resolves sample_response) =
      Inr (js ''Try Inception'', None)"
    by (simp add: await_reply_def sample_response_def)
  have m: "messages (fst (sendMessage sample_engine (js ''T1'') 1 (js ''T2'') 2 (js ''hi'')
      (Resolves sample_response) (sample_chat, sample_storage None))) =
     messages sample_chat @
            [userMessage (js ''hi'') (js ''T1''),
             assistantMessage (js ''Try Inception'') (js ''T2'') None]"
    by (simp add: sendMessage_state [OF hi_not_blank sample_chat_idle] r)
  show ?thesis
    using hi_not_blank sample_chat_idle
      transcript_saved_on_every_change [where now = 5 and msgs = "messages sample_chat"
        and b = "sample_storage None" and c = "js ''hi''" and st = sample_chat
        and E = sample_engine and ?iso1.0 = "js ''T1''" and ?t1.0 = 1 and ?iso2.0 = "js ''T2''"
        and ?t2.0 = 2 and reply = "Resolves sample_response"]
    by (simp add: r m)
qed

text \<open>
  What the load effect restores from a fresh record, message by message: the cached
  message, with the time of the load for a timestamp that is absent or empty.
\<close>

lemma mount_fresh:
  assumes "getItem cache_key b = Some (Some (CacheRecord cached ts))"
    and "now - ts < 1800 * 1000"
  shows "messages (fst (mount now isoNow t1 t2 b)) =
     map (\<lambda>m. m\<lparr>timestamp :=
                  Some (case timestamp m of
                          None \<Rightarrow> isoNow
                        | Some s \<Rightarrow> if s = [] then isoNow else s)\<rparr>) cached"
  using assms by (simp add: mount_state load_effect_read restore_def or_else_def)

lemma restore_has_timestamp: "has_timestamp m \<Longrightarrow> restore isoNow m = m"
  by (auto simp: has_timestamp_def restore_timed split: option.splits)

lemma built_messages_have_timestamp:
  "isoNow \<noteq> [] \<Longrightarrow> has_timestamp (welcomeMessage isoNow)"
  "isoNow \<noteq> [] \<Longrightarrow> has_timestamp (userMessage c isoNow)"
  "isoNow \<noteq> [] \<Longrightarrow> has_timestamp (assistantMessage c isoNow recs)"
  "isoNow \<noteq> [] \<Longrightarrow> has_timestamp (restore isoNow m)"
  by (simp_all add: has_timestamp_def welcomeMessage_def userMessage_def assistantMessage_def
      restore_def or_else_def split: option.splits)

text \<open>
  C2. On mounting, when the storage holds a record \<open>{messages, timestamp}\<close> under the
  key, of messages of the data model, and \<open>now - timestamp\<close> is less than 1800 seconds,
  the cached messages are restored as the transcript. When the storage holds nothing under
  the key, or the record is at least 1800 seconds old, the cache is discarded: the
  transcript becomes the single welcome message whatever the cached messages are, and the
  record is replaced by the save that follows when the storage accepts the write.
\<close>

theorem mount_restores_or_welcomes:
  "(getItem cache_key b = Some (Some (CacheRecord cached ts))
      \<and> list_all has_timestamp cached \<and> now - ts < 1800 * 1000 \<longrightarrow>
      messages (fst (mount now isoNow t1 t2 b)) = cached)
   \<and> (getItem cache_key b = Some None
        \<or> (getItem cache_key b = Some (Some (CacheRecord cached ts))
            \<and> 1800 * 1000 \<le> now - ts) \<longrightarrow>
      messages (fst (mount now isoNow t1 t2 b)) = [welcomeMessage isoNow]
      \<and> (\<not> setItem_throws b \<longrightarrow>
           localStorage (snd (mount now isoNow t1 t2 b)) cache_key =
             Some (CacheRecord [welcomeMessage isoNow] t2)))"
proof -
  let ?m = "messages (fst (mount now isoNow t1 t2 b))"
  have same: "map (restore isoNow) cached = cached" if "list_all has_timestamp cached"
    using that by (induction cached) (simp_all add: restore_has_timestamp)
  have fresh: "?m = cached"
    if "getItem cache_key b = Some (Some (CacheRecord cached ts))"
      and "list_all has_timestamp cached" and "now - ts < 1800 * 1000"
    using that same by (simp add: mount_state load_effect_read)
  have loaded: "fst (load_effect now isoNow b) = Some [welcomeMessage isoNow]"
    if "getItem cache_key b = Some None
        \<or> (getItem cache_key b = Some (Some (CacheRecord cached ts))
            \<and> 1800 * 1000 \<le> now - ts)"
    using that by (auto simp: load_effect_read)
  have stale: "?m = [welcomeMessage isoNow]
      \<and> (\<not> setItem_throws b \<longrightarrow>
           localStorage (snd (mount now isoNow t1 t2 b)) cache_key =
             Some (CacheRecord [welcomeMessage isoNow] t2))"
    if "getItem cache_key b = Some None
        \<or> (getItem cache_key b = Some (Some (CacheRecord cached ts))
            \<and> 1800 * 1000 \<le> now - ts)"
    using loaded [OF that] by (simp add: mount_state mount_storage)
  show ?thesis
    using fresh stale by blast
qed

theorem mount_restores_or_welcomes_witness:
  "getItem cache_key (sample_storage (Some (CacheRecord [sample_message 1, sample_message 2] 0))) =
     Some (Some (CacheRecord [sample_message 1, sample_message 2] 0))
   \<and> list_all has_timestamp [sample_message 1, sample_message 2]
   \<and> messages (fst (mount 1799999 (js ''T0'') 1800000 1800001
         (sample_storage (Some (CacheRecord [sample_message 1, sample_message 2] 0))))) =
       [sample_message 1, sample_message 2]
   \<and> messages (fst (mount 1800000 (js ''T0'') 1800001 1800002
         (sample_storage (Some (CacheRecord [sample_message 1, sample_message 2] 0))))) =
       [welcomeMessage (js ''T0'')]
   \<and> localStorage (snd (mount 1800000 (js ''T0'') 1800001 1800002
         (sample_storage (Some (CacheRecord [sample_message 1, sample_message 2] 0))))) cache_key =
       Some (CacheRecord [welcomeMessage (js ''T0'')] 1800002)
   \<and> messages (fst (mount 5 (js ''T0'') 6 7 (sample_storage None))) =
       [welcomeMessage (js ''T0'')]"
proof -
  let ?b = "sample_storage (Some (CacheRecord [sample_message 1, sample_message 2] 0))"
  have w: "has_timestamp (sample_message n)" for n
    by (simp add: has_timestamp_def sample_message_def js_def)
  have h: "list_all has_timestamp [sample_message 1, sample_message 2]"
    by (simp add: w)
  show ?thesis
    using h
      mount_restores_or_welcomes [of ?b "[sample_message 1, sample_message 2]" 0 1799999
        "js ''T0''" 1800000 1800001]
      mount_restores_or_welcomes [of ?b "[sample_message 1, sample_message 2]" 0 1800000
        "js ''T0''" 1800001 1800002]
      mount_restores_or_welcomes [of "sample_storage None" "[]" 0 5 "js ''T0''" 6 7]
    by simp
qed

text \<open>
  C7. A storage failure is caught and logged and the rest of the operation's state changes
  still apply: so \<open>resetChat\<close> does after a failed removal, but the load effect does
  not. With a string under the key that \<open>JSON.parse\<close> rejects, the \<open>catch\<close> clause
  logs and the effect ends without setting the transcript, which stays empty instead of
  becoming the welcome message.
\<close>

theorem mount_unreadable_cache:
  "messages (fst (mount 1000 (js ''T0'') 1001 1002 (sample_storage (Some Unreadable)))) = []
   \<and> messages (fst (mount 1000 (js ''T0'') 1001 1002 (sample_storage (Some Unreadable))))
       \<noteq> [welcomeMessage (js ''T0'')]
   \<and> error (fst (mount 1000 (js ''T0'') 1001 1002 (sample_storage (Some Unreadable)))) = None
   \<and> console_errors (trace (snd (mount 1000 (js ''T0'') 1001 1002
         (sample_storage (Some Unreadable))))) = [js ''Failed to load messages from cache'']"
  by (simp add: mount_def load_effect_def getItem_def Let_def save_effect_trace initial_chat_def)

text \<open>
  The other parts of the statement hold on every path: no failure sets the error of the
  modal, none is retried, each is logged, and \<open>resetChat\<close> resets the state whatever
  the storage does (\<open>resetChat_state\<close>).
\<close>

lemma mount_load_failure:
  "getItem_throws b \<or> localStorage b cache_key = Some Unreadable \<Longrightarrow>
   fst (mount now isoNow t1 t2 b) = initial_chat"
  by (auto simp: mount_def load_effect_def getItem_def Let_def)

lemma storage_failures_raise_no_error:
  "error (fst (mount now isoNow t1 t2 b)) = None"
  "error (fst (resetChat isoNow t (st, b))) = None"
  by (simp_all add: mount_state resetChat_state initial_chat_def split: option.splits)

lemma storage_failures_are_not_retried:
  "length (writes (trace (save_effect now msgs b))) = length (writes (trace b)) + 1"
  "requests (trace (save_effect now msgs b)) = requests (trace b)"
  "requests (trace (snd (resetChat isoNow t (st, b)))) = requests (trace b)"
  by (simp_all add: save_effect_trace resetChat_def Let_def removeItem_storage_def)

lemma storage_failures_are_logged:
  "setItem_throws b \<Longrightarrow>
     console_errors (trace (save_effect now msgs b)) =
       console_errors (trace b) @ [js ''Failed to save messages to cache'']"
  "removeItem_throws b \<Longrightarrow> \<not> setItem_throws b \<Longrightarrow>
     console_errors (trace (snd (resetChat isoNow t (st, b)))) =
       console_errors (trace b) @ [js ''Failed to clear messages cache'']"
  by (simp_all add: save_effect_trace resetChat_def Let_def removeItem_storage_def)

section \<open>Properties of the settings panel\<close>

lemma sample_fields_not_blank:
  "trim (js ''https://api.openai.com/v1'') \<noteq> []"
  "trim (js ''sk-test'') \<noteq> []"
  "trim (js ''gpt-3.5-turbo'') \<noteq> []"
  by (simp_all add: trim_def js_def trimmable_def WhiteSpace_def LineTerminator_def)

text \<open>
  C4. With the settings enabled, \<open>handleSave\<close> is to reject a token limit outside
  \<open>[1, 4000]\<close>. It does not when the limit is NaN, which is what the panel stores once
  the field has been emptied: both comparisons of the validation are false, the save
  passes it and the request is issued.
\<close>

theorem handleSave_accepts_NaN_maxTokens:
  "enabled no_maxTokens_settings
   \<and> \<not> within_range 1 4000 (maxTokens no_maxTokens_settings)
   \<and> save_validation no_maxTokens_settings = None
   \<and> snd (handleSave Ok None (panel_with no_maxTokens_settings)) =
       [POST (js ''/api/admin/ai-recommend'') (SettingsBody no_maxTokens_settings)]
   \<and> panel_message (fst (handleSave Ok None (panel_with no_maxTokens_settings))) =
       Some (Success, save_succeeded_text)"
proof -
  have v: "save_validation no_maxTokens_settings = None"
    by (simp add: save_validation_def no_maxTokens_settings_def sample_fields_not_blank
        js_greater_def)
  show ?thesis
    using v
    by (simp add: handleSave_def panel_with_def Let_def showMessage_def within_range_def)
      (simp add: no_maxTokens_settings_def)
qed

text \<open>
  On numbers other than NaN the validation is the one stated, and with the settings
  disabled the record is submitted unchecked.
\<close>

lemma js_less_number:
  "x \<noteq> NaN \<Longrightarrow>
   (js_less x (Finite lo) \<or> js_greater x (Finite hi)) = (\<not> within_range lo hi x)"
  by (cases x) (auto simp: js_greater_def within_range_def)

lemma save_validation_numbers:
  assumes "enabled s" and "temperature s \<noteq> NaN" and "maxTokens s \<noteq> NaN"
  shows "(save_validation s \<noteq> None) =
     (trim (apiUrl s) = [] \<or> trim (apiKey s) = [] \<or> trim (model s) = []
      \<or> \<not> within_range 0 2 (temperature s) \<or> \<not> within_range 1 4000 (maxTokens s))"
  using assms by (simp add: save_validation_def js_less_number)

lemma handleSave_rejected:
  "save_validation (settings p) = Some text' \<Longrightarrow>
   handleSave reply refresh p = (showMessage Error text' p, [])"
  by (simp add: handleSave_def)

lemma handleSave_submitted:
  "save_validation (settings p) = None \<Longrightarrow>
   snd (handleSave reply refresh p) =
     [POST (js ''/api/admin/ai-recommend'') (SettingsBody (settings p))]"
  by (simp add: handleSave_def Let_def)

lemma handleSave_disabled:
  "\<not> enabled (settings p) \<Longrightarrow>
   snd (handleSave reply refresh p) =
     [POST (js ''/api/admin/ai-recommend'') (SettingsBody (settings p))]"
  by (simp add: handleSave_submitted save_validation_def)

text \<open>
  A test with an empty model name is not blocked: the request is issued.
\<close>

theorem handleTest_blank_model_counterexample:
  "trim (model (settings (panel_with no_model_settings))) = []
   \<and> snd (handleTest Ok (panel_with no_model_settings)) \<noteq> []"
proof -
  have "trim (apiUrl (settings (panel_with no_model_settings))) \<noteq> []"
    "trim (apiKey (settings (panel_with no_model_settings))) \<noteq> []"
    by (simp_all add: panel_with_def no_model_settings_def sample_fields_not_blank)
  then have "snd (handleTest Ok (panel_with no_model_settings)) \<noteq> []"
    by (simp add: handleTest_def Let_def)
  moreover have "trim (model (settings (panel_with no_model_settings))) = []"
    by (simp add: panel_with_def no_model_settings_def trim_def)
  ultimately show ?thesis by simp
qed

text \<open>
  C8, amended. \<open>handleTest\<close> is blocked, with an error shown and no request issued, when
  the URL or the key is blank after trimming; otherwise it issues one request, a
  \<open>POST\<close> to \<open>/api/admin/ai-recommend/test\<close> whose body is the three fields
  \<open>apiUrl\<close>, \<open>apiKey\<close> and \<open>model\<close> of the current settings, whether or not the model
  is blank.
\<close>

theorem handleTest_blocked_or_sent:
  "(trim (apiUrl (settings p)) = [] \<or> trim (apiKey (settings p)) = [] \<longrightarrow>
      handleTest reply p = (showMessage Error fill_url_and_key_text p, []))
   \<and> (trim (apiUrl (settings p)) \<noteq> [] \<and> trim (apiKey (settings p)) \<noteq> [] \<longrightarrow>
      snd (handleTest reply p) =
        [POST (js ''/api/admin/ai-recommend/test'')
           (TestBody (apiUrl (settings p)) (apiKey (settings p)) (model (settings p)))])"
  by (auto simp: handleTest_def Let_def)

theorem handleTest_blocked_or_sent_witness:
  "trim (apiUrl (settings (panel_with no_model_settings))) \<noteq> []
   \<and> trim (apiKey (settings (panel_with no_model_settings))) \<noteq> []
   \<and> snd (handleTest Ok (panel_with no_model_settings)) =
       [POST (js ''/api/admin/ai-recommend/test'')
          (TestBody (js ''https://api.openai.com/v1'') (js ''sk-test'') [])]
   \<and> trim (apiUrl (settings (panel_with (valid_settings\<lparr>apiUrl := js ''  ''\<rparr>)))) = []
   \<and> handleTest Ok (panel_with (valid_settings\<lparr>apiUrl := js ''  ''\<rparr>)) =
       (showMessage Error fill_url_and_key_text
          (panel_with (valid_settings\<lparr>apiUrl := js ''  ''\<rparr>)), [])"
proof -
  have a: "trim (apiUrl (settings (panel_with no_model_settings))) \<noteq> []"
    "trim (apiKey (settings (panel_with no_model_settings))) \<noteq> []"
    by (simp_all add: panel_with_def no_model_settings_def sample_fields_not_blank)
  have b: "trim (apiUrl (settings (panel_with (valid_settings\<lparr>apiUrl := js ''  ''\<rparr>)))) = []"
    by (simp add: panel_with_def trim_blank)
  have f: "apiUrl (settings (panel_with no_model_settings)) = js ''https://api.openai.com/v1''"
    "apiKey (settings (panel_with no_model_settings)) = js ''sk-test''"
    "model (settings (panel_with no_model_settings)) = []"
    by (simp_all add: panel_with_def no_model_settings_def)
  show ?thesis
    using a b
      handleTest_blocked_or_sent [of "panel_with no_model_settings" Ok]
      handleTest_blocked_or_sent [of "panel_with (valid_settings\<lparr>apiUrl := js ''  ''\<rparr>)" Ok]
    by (simp add: f)
qed

end
